theory Spec2Isabelle
  imports Main "HOL-Library.Multiset"
begin

section \<open>Values and records of the attendance dataset\<close>

text \<open>
  The component \<open>App\<close> of \<open>src/App.js\<close> keeps its data in React state hooks and talks to
  three collaborators: the HTTP service (\<open>axios.post\<close>), the key-value store
  (\<open>AsyncStorage\<close>) and the deep-link channel (\<open>Linking\<close>).  The embedding below turns
  the hooks into one record, every handler into a function on that record, and every
  answer of a collaborator into an argument of the handler that awaits it.

  JavaScript strings are modelled as \<open>string\<close>; field names and texts are read as ASCII.
  An attendance record is a JavaScript object with scalar fields; it is modelled as the
  list of its own properties in the order \<open>Object.keys\<close> enumerates them.
\<close>

datatype jsvalue = JString string | JNumber int | JBoolean bool | JNull | JUndefined

type_synonym attendance_record = "(string \<times> jsvalue) list"

definition Object_keys :: "attendance_record \<Rightarrow> string list" where
  "Object_keys row = map fst row"

text \<open>\<open>row[header]\<close>: a property the object lacks reads as \<open>undefined\<close>.\<close>

definition getField :: "attendance_record \<Rightarrow> string \<Rightarrow> jsvalue" where
  "getField row header = (case map_of row header of None \<Rightarrow> JUndefined | Some v \<Rightarrow> v)"

definition digitChar :: "nat \<Rightarrow> char" where
  "digitChar d = ''0123456789'' ! d"

fun showNat :: "nat \<Rightarrow> string" where
  "showNat n = (if n < 10 then [digitChar n] else showNat (n div 10) @ [digitChar (n mod 10)])"

definition showInt :: "int \<Rightarrow> string" where
  "showInt i = (if i < 0 then CHR ''-'' # showNat (nat (- i)) else showNat (nat i))"

text \<open>
  \<open>String(value)\<close> of line 119.  Numbers are the integers that JavaScript prints as a
  plain decimal numeral.
\<close>

fun String_js :: "jsvalue \<Rightarrow> string" where
  "String_js (JString s) = s"
| "String_js (JNumber i) = showInt i"
| "String_js (JBoolean b) = (if b then ''true'' else ''false'')"
| "String_js JNull = ''null''"
| "String_js JUndefined = ''undefined''"

section \<open>Column widths (the effect of lines 105--130)\<close>

text \<open>Line 115: \<open>let maxWidth = header.length * 10 + 24\<close>.\<close>

definition headerWidth :: "string \<Rightarrow> nat" where
  "headerWidth header = length header * 10 + 24"

text \<open>Lines 119--120: the width one row asks for in the column \<open>header\<close>.\<close>

definition cellWidth :: "attendance_record \<Rightarrow> string \<Rightarrow> nat" where
  "cellWidth row header = length (String_js (getField row header)) * 8 + 24"

text \<open>Lines 115--122: the inner \<open>forEach\<close> over the rows, a running maximum.\<close>

definition maxWidth :: "string \<Rightarrow> attendance_record list \<Rightarrow> nat" where
  "maxWidth header att = fold (\<lambda>row m. max m (cellWidth row header)) att (headerWidth header)"

text \<open>Line 125: \<open>Math.min(Math.max(maxWidth, 100), 200)\<close>.\<close>

definition columnWidth :: "string \<Rightarrow> attendance_record list \<Rightarrow> nat" where
  "columnWidth header att = min (max (maxWidth header att) 100) 200"

text \<open>Lines 111--126: the outer \<open>forEach\<close> over the headers fills the object \<open>widths\<close>.\<close>

definition computeWidths :: "string list \<Rightarrow> attendance_record list \<Rightarrow> (string \<rightharpoonup> nat)" where
  "computeWidths headers att =
     fold (\<lambda>header widths. widths(header \<mapsto> columnWidth header att)) headers Map.empty"

section \<open>Header labels (renderCell, lines 302--305)\<close>

definition isUpperAZ :: "char \<Rightarrow> bool" where
  "isUpperAZ c = (c \<in> set ''ABCDEFGHIJKLMNOPQRSTUVWXYZ'')"

definition toUpperCase_char :: "char \<Rightarrow> char" where
  "toUpperCase_char c =
     (case map_of (zip ''abcdefghijklmnopqrstuvwxyz'' ''ABCDEFGHIJKLMNOPQRSTUVWXYZ'') c of
        None \<Rightarrow> c | Some u \<Rightarrow> u)"

text \<open>\<open>.replace(/([A-Z])/g, " $1")\<close>: a space in front of every capital letter.\<close>

fun spaceCapitals :: "string \<Rightarrow> string" where
  "spaceCapitals [] = []"
| "spaceCapitals (c # cs) =
     (if isUpperAZ c then CHR '' '' # c # spaceCapitals cs else c # spaceCapitals cs)"

text \<open>
  \<open>header.charAt(0).toUpperCase() + header.slice(1).replace(/([A-Z])/g, " $1")\<close>: the
  text a header cell shows.
\<close>

definition headerLabel :: "string \<Rightarrow> string" where
  "headerLabel header = map toUpperCase_char (take 1 header) @ spaceCapitals (drop 1 header)"

section \<open>The state of the component\<close>

text \<open>The four flags of the hook \<open>loading\<close> (lines 34--39).\<close>

record loading_flags =
  register :: bool
  login :: bool
  fetch :: bool
  gmailAuth :: bool

text \<open>The calls of \<open>axios.post\<close>: the endpoint with the data it sends.\<close>

datatype request =
    PostRegister string string
  | PostLogin string string
  | PostAttendance string

text \<open>
  The hooks of lines 30--44, then the content of \<open>AsyncStorage\<close> and the log of the HTTP
  requests issued so far.  An absent token is the empty string (\<open>useState("")\<close>), an
  absent dataset is \<open>null\<close>.
\<close>

record app =
  systemId :: string
  password :: string
  jwtToken :: string
  attendance :: "attendance_record list option"
  loading :: loading_flags
  message :: string
  error :: string
  tableHeaders :: "string list"
  columnWidths :: "string \<rightharpoonup> nat"
  storage :: "string \<rightharpoonup> string"
  requests :: "request list"

definition initialApp :: "(string \<rightharpoonup> string) \<Rightarrow> app" where
  "initialApp store =
     \<lparr> systemId = [], password = [], jwtToken = [], attendance = None,
       loading = \<lparr> register = False, login = False, fetch = False, gmailAuth = False \<rparr>,
       message = [], error = [], tableHeaders = [], columnWidths = Map.empty,
       storage = store, requests = [] \<rparr>"

text \<open>
  The view branches on \<open>jwtToken\<close> alone (lines 364 and 370): the sign-in form when it is
  falsy, the attendance screen otherwise.  This is the only session status the code has.
\<close>

datatype status = LoggedOut | Active

definition status :: "app \<Rightarrow> status" where
  "status s = (if jwtToken s = [] then LoggedOut else Active)"

subsection \<open>Answers of the collaborators\<close>

text \<open>A promise of \<open>AsyncStorage\<close> is fulfilled or rejected.\<close>

datatype store_outcome = Stored | StoreFailed

definition AsyncStorage_setItem :: "string \<Rightarrow> string \<Rightarrow> store_outcome \<Rightarrow> app \<Rightarrow> app" where
  "AsyncStorage_setItem k v r s =
     (case r of Stored \<Rightarrow> s\<lparr>storage := (storage s)(k \<mapsto> v)\<rparr> | StoreFailed \<Rightarrow> s)"

definition AsyncStorage_removeItem :: "string \<Rightarrow> store_outcome \<Rightarrow> app \<Rightarrow> app" where
  "AsyncStorage_removeItem k r s =
     (case r of Stored \<Rightarrow> s\<lparr>storage := (storage s)(k := None)\<rparr> | StoreFailed \<Rightarrow> s)"

text \<open>
  A rejected \<open>axios\<close> promise: \<open>err.response\<close> with its status and \<open>data\<close>, or no response
  at all.  \<open>data\<close> is an object with a \<open>message\<close>, a text, or nothing.
\<close>

datatype err_data = DataMessage string | DataText string | DataAbsent

datatype failure = Response nat err_data | NoResponse

text \<open>
  \<open>err.response?.data?.message || err.response?.data || fallback\<close>.  An object whose
  message is falsy is itself the value of the expression; it is shown here by its string
  form.
\<close>

definition failureText :: "failure \<Rightarrow> string \<Rightarrow> string" where
  "failureText err fallback =
     (case err of
        NoResponse \<Rightarrow> fallback
      | Response code d \<Rightarrow>
          (case d of
             DataMessage m \<Rightarrow> if m \<noteq> [] then m else ''[object Object]''
           | DataText t \<Rightarrow> if t \<noteq> [] then t else fallback
           | DataAbsent \<Rightarrow> fallback))"

text \<open>A handler either returns at once or suspends at its \<open>await axios.post\<close>.\<close>

datatype suspension = Returned (stateOf: app) | Awaiting (stateOf: app)

subsection \<open>Setting the dataset\<close>

text \<open>
  The effect of lines 105--130 runs after every change of \<open>attendance\<close>; it is guarded by
  \<open>attendance && attendance.length > 0\<close>.
\<close>

definition columnWidthEffect :: "app \<Rightarrow> app" where
  "columnWidthEffect s =
     (case attendance s of
        None \<Rightarrow> s
      | Some att \<Rightarrow>
          (case att of
             [] \<Rightarrow> s
           | first # rest \<Rightarrow>
               s\<lparr>tableHeaders := Object_keys first,
                 columnWidths := computeWidths (Object_keys first) att\<rparr>))"

definition setAttendance :: "attendance_record list option \<Rightarrow> app \<Rightarrow> app" where
  "setAttendance v s = columnWidthEffect (s\<lparr>attendance := v\<rparr>)"

text \<open>\<open>columnWidths[header] || 120\<close> of renderCell (line 291).\<close>

definition renderWidth :: "app \<Rightarrow> string \<Rightarrow> nat" where
  "renderWidth s header =
     (case columnWidths s header of None \<Rightarrow> 120 | Some w \<Rightarrow> if w = 0 then 120 else w)"

subsection \<open>Handlers\<close>

definition clearMessages :: "app \<Rightarrow> app" where
  "clearMessages s = s\<lparr>error := [], message := []\<rparr>"

text \<open>\<open>String.prototype.trim\<close> on ASCII text: TAB, LF, VT, FF, CR and the space.\<close>

definition isWhiteSpace :: "char \<Rightarrow> bool" where
  "isWhiteSpace c = (c \<in> set [CHR 0x09, CHR 0x0A, CHR 0x0B, CHR 0x0C, CHR 0x0D, CHR 0x20])"

definition trim :: "string \<Rightarrow> string" where
  "trim str = rev (dropWhile isWhiteSpace (rev (dropWhile isWhiteSpace str)))"

text \<open>handleRegister (lines 137--163), up to the \<open>await\<close> of line 146.\<close>

definition handleRegister_start :: "app \<Rightarrow> suspension" where
  "handleRegister_start s =
     (let s1 = clearMessages s in
      if trim (systemId s) = [] \<or> trim (password s) = []
      then Returned (s1\<lparr>error := ''Please provide both system ID and password.''\<rparr>)
      else Awaiting (s1\<lparr>loading := (loading s1)\<lparr>register := True\<rparr>,
                        requests := requests s1 @ [PostRegister (systemId s) (password s)]\<rparr>))"

text \<open>
  handleRegister from line 146 on: \<open>sid\<close> is the \<open>systemId\<close> the closure captured, \<open>res\<close>
  the answer of the service (\<open>response.data.message\<close> when it is fulfilled), \<open>r\<close> the
  outcome of the \<open>setItem\<close> of line 152.
\<close>

definition handleRegister_resume ::
    "string \<Rightarrow> failure + string option \<Rightarrow> store_outcome \<Rightarrow> app \<Rightarrow> app" where
  "handleRegister_resume sid res r s =
     (let s1 =
        (case res of
           Inr msg \<Rightarrow>
             (let s2 = s\<lparr>message :=
                          (case msg of
                             None \<Rightarrow> ''Registration successful!''
                           | Some m \<Rightarrow> if m \<noteq> [] then m else ''Registration successful!'')\<rparr>
              in case r of
                   Stored \<Rightarrow> AsyncStorage_setItem ''systemId'' sid Stored s2
                 | StoreFailed \<Rightarrow>
                     s2\<lparr>error := failureText NoResponse ''Registration failed. Please try again.''\<rparr>)
         | Inl err \<Rightarrow> s\<lparr>error := failureText err ''Registration failed. Please try again.''\<rparr>)
      in s1\<lparr>loading := (loading s1)\<lparr>register := False\<rparr>\<rparr>)"

text \<open>handleLogin (lines 165--194), up to the \<open>await\<close> of line 174.\<close>

definition handleLogin_start :: "app \<Rightarrow> suspension" where
  "handleLogin_start s =
     (let s1 = clearMessages s in
      if trim (systemId s) = [] \<or> trim (password s) = []
      then Returned (s1\<lparr>error := ''Please provide both system ID and password.''\<rparr>)
      else Awaiting (s1\<lparr>loading := (loading s1)\<lparr>login := True\<rparr>,
                        requests := requests s1 @ [PostLogin (systemId s) (password s)]\<rparr>))"

text \<open>
  handleLogin from line 174 on: \<open>res\<close> carries \<open>response.data.token\<close>, \<open>r1\<close> and \<open>r2\<close> are
  the outcomes of the two \<open>setItem\<close> calls of lines 181 and 182.
\<close>

definition handleLogin_resume ::
    "string \<Rightarrow> failure + string \<Rightarrow> store_outcome \<Rightarrow> store_outcome \<Rightarrow> app \<Rightarrow> app" where
  "handleLogin_resume sid res r1 r2 s =
     (let s1 =
        (case res of
           Inr token \<Rightarrow>
             (let s2 = s\<lparr>jwtToken := token\<rparr> in
              case r1 of
                StoreFailed \<Rightarrow>
                  s2\<lparr>error := failureText NoResponse ''Login failed. Please check your credentials.''\<rparr>
              | Stored \<Rightarrow>
                  (let s3 = AsyncStorage_setItem ''jwtToken'' token Stored s2 in
                   case r2 of
                     StoreFailed \<Rightarrow>
                       s3\<lparr>error := failureText NoResponse ''Login failed. Please check your credentials.''\<rparr>
                   | Stored \<Rightarrow>
                       (AsyncStorage_setItem ''systemId'' sid Stored s3)
                         \<lparr>message := ''Login successful!''\<rparr>))
         | Inl err \<Rightarrow>
             s\<lparr>error := failureText err ''Login failed. Please check your credentials.''\<rparr>)
      in s1\<lparr>loading := (loading s1)\<lparr>login := False\<rparr>\<rparr>)"

text \<open>fetchAttendance (lines 227--275), up to the \<open>await\<close> of line 242.\<close>

definition fetchAttendance_start :: "app \<Rightarrow> suspension" where
  "fetchAttendance_start s =
     (let s1 = clearMessages s in
      if jwtToken s = []
      then Returned (s1\<lparr>error := ''Please login (or authenticate with Gmail) first.''\<rparr>)
      else
        (let s2 = s1\<lparr>loading := (loading s1)\<lparr>fetch := True\<rparr>\<rparr>;
             s3 = setAttendance None s2
         in Awaiting (s3\<lparr>requests := requests s3 @ [PostAttendance (jwtToken s)]\<rparr>)))"

text \<open>
  fetchAttendance from line 242 on: \<open>res\<close> carries \<open>response.data.attendance\<close> (\<open>None\<close>
  when the field is missing), \<open>r\<close> is the outcome of the \<open>removeItem\<close> of line 264.
\<close>

definition fetchAttendance_resume ::
    "failure + attendance_record list option \<Rightarrow> store_outcome \<Rightarrow> app \<Rightarrow> app" where
  "fetchAttendance_resume res r s =
     (let s1 =
        (case res of
           Inr payload \<Rightarrow>
             (let s2 = setAttendance (Some (case payload of None \<Rightarrow> [] | Some a \<Rightarrow> a)) s in
              if (case payload of None \<Rightarrow> False | Some a \<Rightarrow> length a > 0)
              then s2\<lparr>message := ''Attendance fetched successfully!''\<rparr>
              else s2\<lparr>message := ''No attendance records found.''\<rparr>)
         | Inl err \<Rightarrow>
             (if (case err of Response code d \<Rightarrow> code = 401 | NoResponse \<Rightarrow> False)
              then AsyncStorage_removeItem ''jwtToken'' r
                     (s\<lparr>error := ''Your session has expired. Please login again.'',
                        jwtToken := []\<rparr>)
              else s\<lparr>error := failureText err ''Error fetching attendance. Please try again.''\<rparr>))
      in s1\<lparr>loading := (loading s1)\<lparr>fetch := False\<rparr>\<rparr>)"

text \<open>A call of fetchAttendance that nothing interleaves with.\<close>

definition fetchAttendance ::
    "failure + attendance_record list option \<Rightarrow> store_outcome \<Rightarrow> app \<Rightarrow> app" where
  "fetchAttendance res r s =
     (case fetchAttendance_start s of
        Returned s' \<Rightarrow> s'
      | Awaiting s' \<Rightarrow> fetchAttendance_resume res r s')"

text \<open>
  handleLogout (lines 277--287): the \<open>removeItem\<close> is awaited first, inside the \<open>try\<close>;
  when it is rejected the three setters are skipped.
\<close>

definition handleLogout :: "store_outcome \<Rightarrow> app \<Rightarrow> app" where
  "handleLogout r s =
     (case r of
        Stored \<Rightarrow>
          (let s1 = AsyncStorage_removeItem ''jwtToken'' Stored s;
               s2 = s1\<lparr>jwtToken := []\<rparr>;
               s3 = setAttendance None s2
           in s3\<lparr>message := ''Logged out successfully.''\<rparr>)
      | StoreFailed \<Rightarrow> s\<lparr>error := ''Error logging out.''\<rparr>)"

text \<open>
  What a deep link delivers: no URL, a text that \<open>new URL\<close> rejects, or a URL with the value
  of \<open>searchParams.get("token")\<close> (\<open>None\<close> for \<open>null\<close>).
\<close>

datatype deep_link = NoUrl | MalformedUrl | UrlToken "string option"

text \<open>handleDeepLink (lines 70--81): the \<open>setItem\<close> is awaited before the setters.\<close>

definition handleDeepLink :: "deep_link \<Rightarrow> store_outcome \<Rightarrow> app \<Rightarrow> app" where
  "handleDeepLink ev r s =
     (case ev of
        UrlToken (Some token) \<Rightarrow>
          (if token \<noteq> []
           then (case r of
                   Stored \<Rightarrow>
                     (AsyncStorage_setItem ''jwtToken'' token Stored s)
                       \<lparr>jwtToken := token, message := ''Gmail authentication complete!''\<rparr>
                 | StoreFailed \<Rightarrow> s)
           else s)
      | _ \<Rightarrow> s)"

text \<open>The check of the initial URL (lines 87--97): the \<open>setItem\<close> is not awaited.\<close>

definition initialURLCheck :: "deep_link \<Rightarrow> store_outcome \<Rightarrow> app \<Rightarrow> app" where
  "initialURLCheck ev r s =
     (case ev of
        UrlToken (Some token) \<Rightarrow>
          (if token \<noteq> []
           then (AsyncStorage_setItem ''jwtToken'' token r s)
                  \<lparr>jwtToken := token, message := ''Gmail authentication complete!''\<rparr>
           else s)
      | _ \<Rightarrow> s)"

text \<open>
  loadStoredToken (lines 48--66), run once when the component starts: both \<open>getItem\<close>
  calls are awaited before any setter, inside one \<open>try\<close>; \<open>r\<close> tells whether the reads
  were fulfilled.
\<close>

definition loadStoredToken :: "store_outcome \<Rightarrow> app \<Rightarrow> app" where
  "loadStoredToken r s =
     (case r of
        StoreFailed \<Rightarrow> s
      | Stored \<Rightarrow>
          (let s1 = (case storage s ''jwtToken'' of
                       None \<Rightarrow> s
                     | Some storedToken \<Rightarrow>
                         if storedToken \<noteq> []
                         then s\<lparr>jwtToken := storedToken, message := ''Welcome back!''\<rparr>
                         else s)
           in case storage s ''systemId'' of
                None \<Rightarrow> s1
              | Some storedSystemId \<Rightarrow>
                  if storedSystemId \<noteq> [] then s1\<lparr>systemId := storedSystemId\<rparr> else s1))"

subsection \<open>A logout while a fetch is in flight\<close>

text \<open>
  Nothing cancels a request (there is no abort, and no handler looks at anything but the
  hooks), so the continuation of fetchAttendance runs on whatever state it finds when the
  answer arrives.  The schedule below is: fetchAttendance is pressed, handleLogout runs to
  its end, then the answer \<open>res\<close> of the service comes in.
\<close>

definition logoutDuringFetch ::
    "failure + attendance_record list option \<Rightarrow> store_outcome \<Rightarrow> app \<Rightarrow> app" where
  "logoutDuringFetch res r s =
     (case fetchAttendance_start s of
        Returned s' \<Rightarrow> handleLogout Stored s'
      | Awaiting s' \<Rightarrow> fetchAttendance_resume res r (handleLogout Stored s'))"

section \<open>Example inputs\<close>

text \<open>The batch of two records with the fields \<open>name\<close> and \<open>pct\<close>.\<close>

definition annBatch :: "attendance_record list" where
  "annBatch = [[(''name'', JString ''Ann''), (''pct'', JString ''92'')],
               [(''name'', JString ''Alexandria''), (''pct'', JString ''5'')]]"

text \<open>A started component that holds the token \<open>tok\<close>, in memory and in the store.\<close>

definition signedIn :: app where
  "signedIn = (initialApp [''jwtToken'' \<mapsto> ''tok''])\<lparr>jwtToken := ''tok''\<rparr>"

text \<open>The same component after a fetch that brought the example batch.\<close>

definition withData :: app where
  "withData = fetchAttendance (Inr (Some annBatch)) Stored signedIn"

text \<open>The signed-in component after a fetch that got no answer: it shows an error.\<close>

definition afterFailedFetch :: app where
  "afterFailedFetch = fetchAttendance (Inl NoResponse) Stored signedIn"

text \<open>The sign-in form with a system ID of two spaces and a password.\<close>

definition blankIdentity :: app where
  "blankIdentity = (initialApp Map.empty)\<lparr>systemId := ''  '', password := ''secret''\<rparr>"

section \<open>Auxiliary facts\<close>

lemma fold_max_Max:
  "fold (\<lambda>row m. max m (f row)) att (m0::nat) = Max (insert m0 (f ` set att))"
proof (induction att arbitrary: m0)
  case Nil
  show ?case by simp
next
  case (Cons row att)
  have "Max (insert (max m0 (f row)) (f ` set att)) = Max (insert m0 (insert (f row) (f ` set att)))"
    by (cases "f ` set att = {}") (simp_all add: max.assoc)
  with Cons show ?case by simp
qed

lemma maxWidth_Max:
  "maxWidth header att = Max (insert (headerWidth header) ((\<lambda>row. cellWidth row header) ` set att))"
  unfolding maxWidth_def by (rule fold_max_Max)

lemma fold_upd_apply:
  "fold (\<lambda>h w. w(h \<mapsto> g h)) hs m k = (if k \<in> set hs then Some (g k) else m k)"
  by (induction hs arbitrary: m) auto

lemma computeWidths_apply:
  "computeWidths hs att h = (if h \<in> set hs then Some (columnWidth h att) else None)"
  unfolding computeWidths_def by (simp add: fold_upd_apply)

lemma trim_empty_iff: "trim str = [] \<longleftrightarrow> (\<forall>c\<in>set str. isWhiteSpace c)"
proof
  assume "trim str = []"
  then have "dropWhile isWhiteSpace (rev (dropWhile isWhiteSpace str)) = []"
    by (simp add: trim_def)
  then have "\<forall>c\<in>set (dropWhile isWhiteSpace str). isWhiteSpace c"
    by (simp add: dropWhile_eq_Nil_conv)
  then have "dropWhile isWhiteSpace str = []"
    by (metis hd_dropWhile list.set_sel(1))
  then show "\<forall>c\<in>set str. isWhiteSpace c"
    by (simp add: dropWhile_eq_Nil_conv)
next
  assume "\<forall>c\<in>set str. isWhiteSpace c"
  then have h: "dropWhile isWhiteSpace str = []"
    by (simp add: dropWhile_eq_Nil_conv)
  show "trim str = []" by (simp only: trim_def h rev.simps dropWhile.simps)
qed

lemma length_spaceCapitals:
  "length (spaceCapitals cs) = length cs + length (filter isUpperAZ cs)"
  by (induction cs) auto

lemma length_headerLabel:
  "length (headerLabel h) = length h + length (filter isUpperAZ (drop 1 h))"
  by (cases h) (simp_all add: headerLabel_def length_spaceCapitals)

lemma columnWidths_setAttendance:
  "att \<noteq> [] \<Longrightarrow> columnWidths (setAttendance (Some att) s) = computeWidths (Object_keys (hd att)) att"
  by (cases att) (simp_all add: setAttendance_def columnWidthEffect_def)

lemma mset_maxWidth:
  assumes "mset xs = mset ys"
  shows "maxWidth h xs = maxWidth h ys"
proof -
  from assms have "set xs = set ys" by (rule mset_eq_setD)
  then show ?thesis by (simp only: maxWidth_Max)
qed

text \<open>The branches the claims below leave aside: a store that rejects, an empty token.\<close>

lemma handleLogout_rejected: "handleLogout StoreFailed s = s\<lparr>error := ''Error logging out.''\<rparr>"
  by (simp add: handleLogout_def)

lemma handleDeepLink_rejected: "handleDeepLink ev StoreFailed s = s"
  by (simp add: handleDeepLink_def split: deep_link.splits option.splits)

lemma deep_link_empty_token:
  "handleDeepLink (UrlToken (Some [])) r s = s \<and> initialURLCheck (UrlToken (Some [])) r s = s"
  by (simp add: handleDeepLink_def initialURLCheck_def)

text \<open>A start-up read that comes after a stored deep-link token finds that same token.\<close>

lemma loadStoredToken_after_deep_link:
  "t \<noteq> [] \<Longrightarrow> jwtToken (loadStoredToken r (handleDeepLink (UrlToken (Some t)) Stored s)) = t"
  by (simp add: loadStoredToken_def handleDeepLink_def AsyncStorage_setItem_def Let_def
      split: store_outcome.splits option.splits)

lemmas fetch_defs = fetchAttendance_def fetchAttendance_start_def fetchAttendance_resume_def
  setAttendance_def columnWidthEffect_def clearMessages_def AsyncStorage_removeItem_def

section \<open>The claims\<close>

subsection \<open>Session: fetch, logout, expiry, deep link\<close>

text \<open>
  Claim C1 says that a successful answer arriving after a logout leaves the dataset absent.
  On the code it does not: from the signed-in example, with the example batch as the late
  answer, the dataset ends up holding that batch.
\<close>

theorem C1_counterexample:
  "attendance (logoutDuringFetch (Inr (Some annBatch)) Stored signedIn) = Some annBatch"
  by code_simp

text \<open>
  Claim C1, as the code has it.  fetchAttendance is issued while a token is present, then
  handleLogout completes (its removal from the store fulfilled), then the successful answer
  arrives.  After both events the status is still LoggedOut and the token is still cleared,
  in memory and in the store; the dataset however is the record list of the answer (the
  empty list when the answer has none): line 252 runs whatever the state is, and the code
  has no session epoch.
\<close>

theorem C1_late_response_after_logout:
  assumes "jwtToken s \<noteq> []"
  shows "status (logoutDuringFetch (Inr payload) r s) = LoggedOut \<and>
         jwtToken (logoutDuringFetch (Inr payload) r s) = [] \<and>
         storage (logoutDuringFetch (Inr payload) r s) ''jwtToken'' = None \<and>
         attendance (logoutDuringFetch (Inr payload) r s) =
           Some (case payload of None \<Rightarrow> [] | Some a \<Rightarrow> a)"
  using assms
  by (simp add: logoutDuringFetch_def handleLogout_def fetch_defs status_def Let_def
      split: list.splits option.splits)

text \<open>
  The theorem of C1 at the signed-in example, with an answer that carries no records.
\<close>

theorem C1_witness:
  "jwtToken signedIn \<noteq> [] \<and>
   status (logoutDuringFetch (Inr (Some [])) Stored signedIn) = LoggedOut \<and>
   attendance (logoutDuringFetch (Inr (Some [])) Stored signedIn) = Some []"
proof -
  have h: "jwtToken signedIn \<noteq> []" by (simp add: signedIn_def)
  from C1_late_response_after_logout [OF h, of "Some []" Stored] h show ?thesis by simp
qed

text \<open>
  Claim C4.  fetchAttendance is called with a token present and the service answers with
  status 401.  Afterwards, whatever dataset was held before and whatever the store does,
  the status is LoggedOut, the token in memory is cleared, the dataset is absent and the
  error is the session-expired text; when the removal of line 264 is fulfilled the stored
  token is gone too.  The code has no separate Expired status: the expiry shows in the
  error text only.
\<close>

theorem C4_unauthorized_fetch_ends_session:
  assumes "jwtToken s \<noteq> []"
  shows "status (fetchAttendance (Inl (Response 401 d)) r s) = LoggedOut \<and>
         jwtToken (fetchAttendance (Inl (Response 401 d)) r s) = [] \<and>
         attendance (fetchAttendance (Inl (Response 401 d)) r s) = None \<and>
         error (fetchAttendance (Inl (Response 401 d)) r s) =
           ''Your session has expired. Please login again.'' \<and>
         storage (fetchAttendance (Inl (Response 401 d)) Stored s) ''jwtToken'' = None"
  using assms
  by (simp add: fetch_defs status_def Let_def split: store_outcome.splits)

text \<open>
  The theorem of C4 at the example that holds a token, a stored token and the example
  batch.
\<close>

theorem C4_witness:
  "jwtToken withData \<noteq> [] \<and> attendance withData = Some annBatch \<and>
   storage withData ''jwtToken'' = Some ''tok'' \<and>
   attendance (fetchAttendance (Inl (Response 401 DataAbsent)) Stored withData) = None \<and>
   jwtToken (fetchAttendance (Inl (Response 401 DataAbsent)) Stored withData) = [] \<and>
   storage (fetchAttendance (Inl (Response 401 DataAbsent)) Stored withData) ''jwtToken'' = None"
proof -
  have h: "jwtToken withData \<noteq> []" by code_simp
  have a: "attendance withData = Some annBatch" by code_simp
  have st: "storage withData ''jwtToken'' = Some ''tok''" by code_simp
  from C4_unauthorized_fetch_ends_session [OF h, of DataAbsent Stored] h a st
  show ?thesis by simp
qed

text \<open>
  Claim C5 says that a logout succeeds from every starting state and clears the success
  message and the error message.  On the code it does neither.  After a fetch that failed,
  a logout sets the message to the logout text (line 282) and leaves the error text of the
  fetch where it was.  And when the store rejects the removal of line 279, which is
  awaited before the setters, the token, the status Active and the dataset all stay.
\<close>

theorem C5_counterexample:
  "message (handleLogout Stored afterFailedFetch) = ''Logged out successfully.'' \<and>
   error (handleLogout Stored afterFailedFetch) = ''Error fetching attendance. Please try again.'' \<and>
   jwtToken (handleLogout StoreFailed withData) = ''tok'' \<and>
   status (handleLogout StoreFailed withData) = Active \<and>
   attendance (handleLogout StoreFailed withData) = Some annBatch"
  by code_simp

text \<open>
  Claim C5, as the code has it.  From every starting state, also one that never held a
  token: when the store fulfils the removal, handleLogout ends with the status LoggedOut,
  the token cleared in memory and in the store, the dataset cleared and the message set to
  the logout text, while the system ID is kept, in memory and in the store; when the store
  rejects the removal, handleLogout changes nothing but the error, which becomes the
  logout-failure text, so that the token, the status, the dataset and the store are as
  before.  (handleLogout does not call clearMessages; nothing is stated here about the
  error text after a fulfilled removal.)
\<close>

theorem C5_logout_clears_session:
  "status (handleLogout Stored s) = LoggedOut \<and>
   jwtToken (handleLogout Stored s) = [] \<and>
   storage (handleLogout Stored s) ''jwtToken'' = None \<and>
   attendance (handleLogout Stored s) = None \<and>
   message (handleLogout Stored s) = ''Logged out successfully.'' \<and>
   systemId (handleLogout Stored s) = systemId s \<and>
   storage (handleLogout Stored s) ''systemId'' = storage s ''systemId'' \<and>
   handleLogout StoreFailed s = s\<lparr>error := ''Error logging out.''\<rparr> \<and>
   status (handleLogout StoreFailed s) = status s \<and>
   jwtToken (handleLogout StoreFailed s) = jwtToken s \<and>
   attendance (handleLogout StoreFailed s) = attendance s \<and>
   storage (handleLogout StoreFailed s) = storage s"
  by (simp add: handleLogout_def fetch_defs status_def Let_def)

text \<open>
  Claim C6 says that a deep link with a token parameter makes the status Active and sets
  the token, in every status and for every token value.  On the code it does not always:
  when the store rejects the \<open>setItem\<close> of line 76, which handleDeepLink awaits before its
  setters, the token \<open>abc\<close> is not set and the status stays LoggedOut; and an empty token
  value is skipped by the test of line 75.
\<close>

theorem C6_counterexample:
  "status (handleDeepLink (UrlToken (Some ''abc'')) StoreFailed (initialApp Map.empty)) = LoggedOut \<and>
   jwtToken (handleDeepLink (UrlToken (Some ''abc'')) StoreFailed (initialApp Map.empty)) = [] \<and>
   status (handleDeepLink (UrlToken (Some [])) Stored (initialApp Map.empty)) = LoggedOut \<and>
   storage (handleDeepLink (UrlToken (Some [])) Stored (initialApp Map.empty)) ''jwtToken'' = None"
  by code_simp

text \<open>
  Claim C6, as the code has it.  In every state, for every non-empty token \<open>t\<close>: a deep
  link whose URL carries \<open>t\<close>, when the store fulfils the \<open>setItem\<close>, makes the status
  Active, sets the token to \<open>t\<close>, stores it under \<open>jwtToken\<close> and shows the completion
  message, and a second such deep link with another token leaves the second token, in
  memory and in the store.  The check of the initial URL, which does not await the store,
  makes the status Active, sets the token and shows the message whatever the store does,
  and stores the token when the store fulfils the \<open>setItem\<close>.
\<close>

theorem C6_deep_link_token:
  assumes "t \<noteq> []" and "t' \<noteq> []"
  shows "status (handleDeepLink (UrlToken (Some t)) Stored s) = Active \<and>
         jwtToken (handleDeepLink (UrlToken (Some t)) Stored s) = t \<and>
         storage (handleDeepLink (UrlToken (Some t)) Stored s) ''jwtToken'' = Some t \<and>
         message (handleDeepLink (UrlToken (Some t)) Stored s) = ''Gmail authentication complete!'' \<and>
         jwtToken (handleDeepLink (UrlToken (Some t')) Stored
                    (handleDeepLink (UrlToken (Some t)) Stored s)) = t' \<and>
         storage (handleDeepLink (UrlToken (Some t')) Stored
                    (handleDeepLink (UrlToken (Some t)) Stored s)) ''jwtToken'' = Some t' \<and>
         status (initialURLCheck (UrlToken (Some t)) r s) = Active \<and>
         jwtToken (initialURLCheck (UrlToken (Some t)) r s) = t \<and>
         storage (initialURLCheck (UrlToken (Some t)) Stored s) ''jwtToken'' = Some t \<and>
         message (initialURLCheck (UrlToken (Some t)) r s) = ''Gmail authentication complete!''"
  using assms
  by (simp add: handleDeepLink_def initialURLCheck_def AsyncStorage_setItem_def status_def
      split: store_outcome.splits)

text \<open>
  The theorem of C6 at the initial state, with the tokens \<open>abc\<close> and then \<open>xyz\<close>.
\<close>

theorem C6_witness:
  "''abc'' \<noteq> [] \<and> ''xyz'' \<noteq> [] \<and>
   status (handleDeepLink (UrlToken (Some ''abc'')) Stored (initialApp Map.empty)) = Active \<and>
   jwtToken (handleDeepLink (UrlToken (Some ''xyz'')) Stored
              (handleDeepLink (UrlToken (Some ''abc'')) Stored (initialApp Map.empty))) = ''xyz''"
proof -
  have a: "''abc'' \<noteq> []" and b: "''xyz'' \<noteq> []" by simp_all
  from C6_deep_link_token [OF a b, of "initialApp Map.empty" Stored] show ?thesis by simp
qed

text \<open>
  Claim C7.  When the system ID or the password is empty or consists of white space only,
  handleRegister and handleLogin return before their \<open>await\<close>: the result is the state
  with the validation text as error and an empty message, and nothing else changed; in
  particular no request is logged and the flags of \<open>loading\<close> are as before.
\<close>

theorem C7_blank_credentials_rejected:
  assumes "(\<forall>c\<in>set (systemId s). isWhiteSpace c) \<or> (\<forall>c\<in>set (password s). isWhiteSpace c)"
  shows "handleRegister_start s =
           Returned (s\<lparr>error := ''Please provide both system ID and password.'', message := []\<rparr>) \<and>
         handleLogin_start s =
           Returned (s\<lparr>error := ''Please provide both system ID and password.'', message := []\<rparr>) \<and>
         requests (stateOf (handleRegister_start s)) = requests s \<and>
         requests (stateOf (handleLogin_start s)) = requests s \<and>
         loading (stateOf (handleRegister_start s)) = loading s \<and>
         loading (stateOf (handleLogin_start s)) = loading s"
proof -
  from assms have "trim (systemId s) = [] \<or> trim (password s) = []"
    by (simp only: trim_empty_iff)
  then show ?thesis
    by (simp add: handleRegister_start_def handleLogin_start_def clearMessages_def Let_def)
qed

text \<open>
  The theorem of C7 at the form with a system ID of two spaces.
\<close>

theorem C7_witness:
  "((\<forall>c\<in>set (systemId blankIdentity). isWhiteSpace c) \<or>
    (\<forall>c\<in>set (password blankIdentity). isWhiteSpace c)) \<and>
   handleLogin_start blankIdentity =
     Returned (blankIdentity\<lparr>error := ''Please provide both system ID and password.'',
                             message := []\<rparr>) \<and>
   requests (stateOf (handleRegister_start blankIdentity)) = []"
proof -
  have h: "(\<forall>c\<in>set (systemId blankIdentity). isWhiteSpace c) \<or>
    (\<forall>c\<in>set (password blankIdentity). isWhiteSpace c)"
    by (simp add: blankIdentity_def initialApp_def isWhiteSpace_def)
  have r: "requests blankIdentity = []" by (simp add: blankIdentity_def initialApp_def)
  from C7_blank_credentials_rejected [OF h] h r show ?thesis by simp
qed

text \<open>
  Claim C10.  fetchAttendance with an absent token returns before its \<open>await\<close>: the
  result is the state with the please-login text as error and an empty message; no request
  is logged, the flags of \<open>loading\<close>, the token, the dataset and the store are as before.
\<close>

theorem C10_fetch_without_token:
  assumes "jwtToken s = []"
  shows "fetchAttendance_start s =
           Returned (s\<lparr>error := ''Please login (or authenticate with Gmail) first.'',
                       message := []\<rparr>) \<and>
         fetchAttendance res r s =
           s\<lparr>error := ''Please login (or authenticate with Gmail) first.'', message := []\<rparr> \<and>
         requests (fetchAttendance res r s) = requests s \<and>
         loading (fetchAttendance res r s) = loading s \<and>
         jwtToken (fetchAttendance res r s) = jwtToken s \<and>
         attendance (fetchAttendance res r s) = attendance s \<and>
         storage (fetchAttendance res r s) = storage s"
  using assms
  by (simp add: fetchAttendance_def fetchAttendance_start_def clearMessages_def Let_def)

text \<open>
  The theorem of C10 at the initial state.
\<close>

theorem C10_witness:
  "jwtToken (initialApp Map.empty) = [] \<and>
   error (fetchAttendance (Inr (Some annBatch)) Stored (initialApp Map.empty)) =
     ''Please login (or authenticate with Gmail) first.'' \<and>
   requests (fetchAttendance (Inr (Some annBatch)) Stored (initialApp Map.empty)) = [] \<and>
   attendance (fetchAttendance (Inr (Some annBatch)) Stored (initialApp Map.empty)) = None"
proof -
  have h: "jwtToken (initialApp Map.empty) = []" by (simp add: initialApp_def)
  have i: "requests (initialApp Map.empty) = [] \<and> attendance (initialApp Map.empty) = None"
    by (simp add: initialApp_def)
  from C10_fetch_without_token [OF h, of "Inr (Some annBatch)" Stored] h i show ?thesis by simp
qed

subsection \<open>Column layout\<close>

text \<open>
  Claim C2 says that the header-driven candidate of \<open>rollNo\<close> is the length of
  \<open>Roll No\<close> times 10 plus 24, which is 94.  On the code the candidate is 84, and a batch
  whose only value is narrower gets 84 as its width before clamping.
\<close>

theorem C2_counterexample:
  "headerLabel ''rollNo'' = ''Roll No'' \<and>
   length (headerLabel ''rollNo'') * 10 + 24 = 94 \<and>
   headerWidth ''rollNo'' = 84 \<and>
   maxWidth ''rollNo'' [[(''rollNo'', JNumber 7)]] = 84"
  by code_simp

text \<open>
  Claim C2, as the code has it.  For every header the header-driven candidate is the
  length of the header text itself, as the record has it, times 10 plus 24 (line 115).
  The displayed form of renderCell is longer by one character for every capital letter
  after the first character, so the candidate of the claim exceeds the one of the code by
  10 for each of them.  The candidate is a lower bound of the width before clamping, for
  every batch.  For \<open>rollNo\<close> it is 6 times 10 plus 24.
\<close>

theorem C2_header_candidate:
  "headerWidth h = length h * 10 + 24 \<and>
   length (headerLabel h) * 10 + 24 = headerWidth h + 10 * length (filter isUpperAZ (drop 1 h)) \<and>
   headerWidth h \<le> maxWidth h att \<and>
   headerWidth ''rollNo'' = 6 * 10 + 24"
proof -
  have "headerWidth h \<le> maxWidth h att"
    unfolding maxWidth_Max by (rule Max_ge) simp_all
  then show ?thesis
    by (simp add: headerWidth_def length_headerLabel)
qed

text \<open>
  Claim C3 says that an empty batch empties the widths and the headers.  On the code it
  does not: after a fetch that brought the example batch, a second fetch that brings the
  empty list leaves the width of \<open>name\<close> and both headers in place.
\<close>

theorem C3_counterexample:
  "columnWidths (fetchAttendance (Inr (Some [])) Stored withData) ''name'' = Some 104 \<and>
   tableHeaders (fetchAttendance (Inr (Some [])) Stored withData) = [''name'', ''pct'']"
  by code_simp

text \<open>
  Claim C3, as the code has it.  When the batch is replaced by the empty list, the effect
  of lines 105--130 is skipped by its guard, so the widths and the headers stay exactly as
  they were; they are empty when they were empty before, as in the initial state.
\<close>

theorem C3_empty_batch_keeps_layout:
  "columnWidths (setAttendance (Some []) s) = columnWidths s \<and>
   tableHeaders (setAttendance (Some []) s) = tableHeaders s \<and>
   columnWidths (fetchAttendance_resume (Inr (Some [])) r s) = columnWidths s \<and>
   tableHeaders (fetchAttendance_resume (Inr (Some [])) r s) = tableHeaders s \<and>
   columnWidths (setAttendance (Some []) (initialApp store)) = Map.empty \<and>
   tableHeaders (setAttendance (Some []) (initialApp store)) = []"
  by (simp add: setAttendance_def columnWidthEffect_def fetchAttendance_resume_def initialApp_def)

text \<open>
  Claim C8.  For a non-empty batch the widths are a function of the batch alone (the
  states \<open>s\<close> and \<open>s'\<close> they are computed in do not matter), and a permutation of the rows
  that keeps the key set of the first record yields the same widths.
\<close>

theorem C8_row_order_independent:
  assumes "mset xs = mset ys" and "xs \<noteq> []"
    and "set (Object_keys (hd xs)) = set (Object_keys (hd ys))"
  shows "columnWidths (setAttendance (Some xs) s) = columnWidths (setAttendance (Some ys) s')"
proof -
  from assms(1,2) have ys: "ys \<noteq> []" by auto
  have "computeWidths (Object_keys (hd xs)) xs h = computeWidths (Object_keys (hd ys)) ys h" for h
    using assms(3) by (simp add: computeWidths_apply columnWidth_def mset_maxWidth [OF assms(1)])
  then have "computeWidths (Object_keys (hd xs)) xs = computeWidths (Object_keys (hd ys)) ys"
    by (rule ext)
  then show ?thesis
    by (simp add: columnWidths_setAttendance assms(2) ys)
qed

text \<open>
  The theorem of C8 at the example batch and its reversal.
\<close>

theorem C8_witness:
  "mset annBatch = mset (rev annBatch) \<and> annBatch \<noteq> [] \<and>
   set (Object_keys (hd annBatch)) = set (Object_keys (hd (rev annBatch))) \<and>
   columnWidths (setAttendance (Some annBatch) signedIn) =
   columnWidths (setAttendance (Some (rev annBatch)) (initialApp Map.empty))"
proof -
  have a: "mset annBatch = mset (rev annBatch)" by simp
  have b: "annBatch \<noteq> []" by (simp add: annBatch_def)
  have c: "set (Object_keys (hd annBatch)) = set (Object_keys (hd (rev annBatch)))"
    by code_simp
  show ?thesis
    by (intro conjI a b c C8_row_order_independent [OF a b c])
qed

text \<open>
  Claim C9.  For every non-empty batch and every header of its first record, the assigned
  width is the maximum of the header candidate and of the candidates of all rows
  (the length of \<open>String(value)\<close> times 8 plus 24), clamped into the interval from 100 to
  200.  For the example batch the width of \<open>name\<close> is 104: the candidate of
  \<open>Alexandria\<close>, above the 48 of \<open>Ann\<close> and the 64 of the header.
\<close>

theorem C9_width_is_clamped_maximum:
  "(att \<noteq> [] \<longrightarrow> h \<in> set (Object_keys (hd att)) \<longrightarrow>
      columnWidths (setAttendance (Some att) s) h =
        Some (min (max (Max (insert (headerWidth h) ((\<lambda>row. cellWidth row h) ` set att))) 100) 200) \<and>
      100 \<le> the (columnWidths (setAttendance (Some att) s) h) \<and>
      the (columnWidths (setAttendance (Some att) s) h) \<le> 200) \<and>
   columnWidths (setAttendance (Some annBatch) s) ''name'' = Some 104 \<and>
   cellWidth (annBatch ! 1) ''name'' = 104 \<and> cellWidth (annBatch ! 0) ''name'' = 48 \<and>
   headerWidth ''name'' = 64"
proof -
  have b: "annBatch \<noteq> []" by (simp add: annBatch_def)
  have k: "''name'' \<in> set (Object_keys (hd annBatch))" by code_simp
  have m: "maxWidth ''name'' annBatch = 104" by code_simp
  have ex: "columnWidths (setAttendance (Some annBatch) s) ''name'' = Some 104"
    using k by (simp add: columnWidths_setAttendance [OF b] computeWidths_apply columnWidth_def m)
  have c1: "cellWidth (annBatch ! 1) ''name'' = 104" by code_simp
  have c0: "cellWidth (annBatch ! 0) ''name'' = 48" by code_simp
  have hw: "headerWidth ''name'' = 64" by code_simp
  have gen: "columnWidths (setAttendance (Some att) s) h =
        Some (min (max (Max (insert (headerWidth h) ((\<lambda>row. cellWidth row h) ` set att))) 100) 200)"
    if "att \<noteq> []" "h \<in> set (Object_keys (hd att))"
    using that by (simp add: columnWidths_setAttendance computeWidths_apply columnWidth_def maxWidth_Max)
  show ?thesis
    using ex c1 c0 hw gen by simp
qed

text \<open>
  The theorem of C9 at the example batch and its column \<open>pct\<close>.
\<close>

theorem C9_witness:
  "annBatch \<noteq> [] \<and> ''pct'' \<in> set (Object_keys (hd annBatch)) \<and>
   columnWidths (setAttendance (Some annBatch) signedIn) ''pct'' = Some 100"
proof -
  have b: "annBatch \<noteq> []" by (simp add: annBatch_def)
  have k: "''pct'' \<in> set (Object_keys (hd annBatch))" by code_simp
  have "maxWidth ''pct'' annBatch = 54" by code_simp
  then have m: "Max (insert (headerWidth ''pct'') ((\<lambda>row. cellWidth row ''pct'') ` set annBatch)) = 54"
    by (simp only: maxWidth_Max)
  from b k C9_width_is_clamped_maximum [of annBatch "''pct''" signedIn]
  have "columnWidths (setAttendance (Some annBatch) signedIn) ''pct'' =
     Some (min (max (Max (insert (headerWidth ''pct'') ((\<lambda>row. cellWidth row ''pct'') ` set annBatch))) 100) 200)"
    by blast
  then have "columnWidths (setAttendance (Some annBatch) signedIn) ''pct'' = Some 100"
    by (simp only: m) simp
  with b k show ?thesis by blast
qed

end
